theory Spec2Isabelle
  imports Complex_Main
begin

section \<open>Basic types\<close>

text \<open>
  \<open>Seconds\<close> is the model time (an integer count of seconds) and \<open>OSErr\<close> the
  status code the C++ methods return (0 is success). \<open>TypeDefs.h\<close> is not
  among the sources: coordinates, depths and velocity components are taken as
  real numbers; every function below that touches them either copies them or
  is marked as modelled from the specification.
\<close>

type_synonym Seconds = int
type_synonym OSErr = int

record VelocityRec =
  u :: real
  v :: real

record WorldPoint =
  pLong :: real
  pLat :: real

record WorldPoint3D =
  p :: WorldPoint
  z :: real

text \<open>
  \<open>LERec\<close> is the particle record. Of its fields the sources read only
  \<open>p\<close> and \<open>z\<close>; the others (its declaration is not among the sources)
  are the extension part of the record scheme.
\<close>

type_synonym 'a LERec = "'a WorldPoint3D_scheme"

text \<open>
  \<open>LEType\<close> and the particle status are C enumerations passed as integers;
  the wrapper names the two valid spill types ('forecast', 'uncertainty') and
  the one status that moves ("movement is only on particles in water"). Every
  other integer is kept as such.
\<close>

datatype LEType = FORECAST_LE | UNCERTAINTY_LE | LEType_other int

datatype LEStatus = OILSTAT_INWATER | OILSTAT_other int

text \<open>The Python exceptions the two Cython wrappers raise.\<close>

datatype py_error = ValueError | IOError | IndexError | OSError

section \<open>Mover_c (Mover_c.cpp)\<close>

record Mover_c =
  bActive :: bool
  bOpen :: bool
  fUncertainStartTime :: int
  fDuration :: int
  fTimeUncertaintyWasSet :: int

text \<open>
  The constructor; \<open>SetMoverName\<close> and \<open>SetMoverMap\<close> store their
  arguments in fields that no function here reads.
\<close>

definition Mover_c_init :: Mover_c where
  "Mover_c_init =
     \<lparr>bActive = True, bOpen = False, fUncertainStartTime = 0, fDuration = 0,
      fTimeUncertaintyWasSet = 0\<rparr>"

definition Mover_c_UpdateUncertainty :: "'a Mover_c_scheme \<Rightarrow> OSErr" where
  "Mover_c_UpdateUncertainty m = 0"

text \<open>
  \<open>Mover_c::GetMove\<close> builds a fresh \<open>WorldPoint3D\<close> from three fields of
  the particle and returns it by value. It has no error return.
\<close>

definition Mover_c_GetMove ::
  "Seconds \<Rightarrow> Seconds \<Rightarrow> Seconds \<Rightarrow> Seconds \<Rightarrow> int \<Rightarrow> int \<Rightarrow> 'a LERec \<Rightarrow> LEType
     \<Rightarrow> WorldPoint3D" where
  "Mover_c_GetMove start_time stop_time model_time timeStep setIndex leIndex theLE leType =
     \<lparr>p = \<lparr>pLong = pLong (p theLE), pLat = pLat (p theLE)\<rparr>, z = z theLE\<rparr>"

section \<open>CyShioTime (cy_shio_time.pyx)\<close>

text \<open>
  The fields of \<open>ShioTimeValue_c\<close> that the wrapper reads or writes. The
  element types of the two derived tables are declared elsewhere and stay
  type parameters; a handle is the sequence of records it holds, so that
  \<open>_GetHandleSize h / sizeof(record)\<close> is the length of the sequence.
\<close>

record ('e, 'h) ShioTimeValue_c =
  daylight_savings_off :: bool
  filePath :: string
  fScaleFactor :: real
  fYearDataPath :: string
  fStationName :: string
  fStationType :: char
  fStationLocation :: WorldPoint
  fUserUnits :: int
  fEbbFloodDataHdl :: "'e list"
  fHighLowDataHdl :: "'h list"

text \<open>
  The C++ methods of \<open>ShioTimeValue_c\<close> are not among the sources and are
  parameters of the wrapper's functions:
  \<^item> \<open>ReadTimeValues\<close> takes the object and the path and returns the status
    and the object as the read left it;
  \<^item> \<open>GetTimeValue\<close> takes the object and a time and returns the status, the
    velocity record and the two derived tables as the call left them (the
    wrapper calls it "to initialize fEbbFloodDataHdl for the specified
    duration"); it writes no other field.
\<close>

type_synonym ('e, 'h) ReadTimeValues =
  "('e, 'h) ShioTimeValue_c \<Rightarrow> string \<Rightarrow> OSErr \<times> ('e, 'h) ShioTimeValue_c"

type_synonym ('e, 'h) GetTimeValue =
  "('e, 'h) ShioTimeValue_c \<Rightarrow> Seconds \<Rightarrow> OSErr \<times> VelocityRec \<times> 'e list \<times> 'h list"

text \<open>
  \<open>__init__\<close>. \<open>path_exists\<close> is \<open>os.path.exists\<close>, \<open>normpath\<close> is
  \<open>os.path.normpath\<close>, \<open>shio0\<close> is the object \<open>__cinit__\<close> allocated. An
  exception leaves no constructed provider, so the result is either the
  exception or the object. Paths are byte strings, on which
  \<open>to_bytes(unicode(path_))\<close> is the identity.
\<close>

definition CyShioTime_init ::
  "(string \<Rightarrow> bool) \<Rightarrow> (string \<Rightarrow> string) \<Rightarrow> ('e, 'h) ReadTimeValues
     \<Rightarrow> ('e, 'h) ShioTimeValue_c \<Rightarrow> string \<Rightarrow> bool \<Rightarrow> real
     \<Rightarrow> py_error + ('e, 'h) ShioTimeValue_c" where
  "CyShioTime_init path_exists normpath ReadTimeValues shio0 path dso scale_factor =
     (let shio1 = shio0\<lparr>daylight_savings_off := dso\<rparr> in
      if path_exists path then
        (case ReadTimeValues shio1 (normpath path) of
           (err, shio2) \<Rightarrow>
             if err \<noteq> 0 then Inl ValueError
             else Inr (shio2\<lparr>fUserUnits := - 1, fScaleFactor := scale_factor\<rparr>))
      else Inl IOError)"

text \<open>The \<open>station_type\<close> property: the stored character as a one-byte string.\<close>

definition station_type :: "('e, 'h) ShioTimeValue_c \<Rightarrow> string" where
  "station_type shio = [fStationType shio]"

text \<open>
  \<open>get_time_value\<close>: the model times are flattened to a one-dimensional
  array and \<open>GetTimeValue\<close> is called on each in turn; the first non-zero
  status raises \<open>ValueError\<close>. The object keeps the tables of the last call
  made, also when the loop is left by the exception, so the object is returned
  beside the outcome.
\<close>

fun get_time_value ::
  "('e, 'h) GetTimeValue \<Rightarrow> ('e, 'h) ShioTimeValue_c \<Rightarrow> Seconds list
     \<Rightarrow> (py_error + VelocityRec list) \<times> ('e, 'h) ShioTimeValue_c" where
  "get_time_value G shio [] = (Inr [], shio)"
| "get_time_value G shio (t # ts) =
     (case G shio t of
        (err, vel, ebb, hl) \<Rightarrow>
          (let shio' = shio\<lparr>fEbbFloodDataHdl := ebb, fHighLowDataHdl := hl\<rparr> in
           if err \<noteq> 0 then (Inl ValueError, shio')
           else (case get_time_value G shio' ts of
                   (Inl e, shio'') \<Rightarrow> (Inl e, shio'')
                 | (Inr vels, shio'') \<Rightarrow> (Inr (vel # vels), shio''))))"

text \<open>
  What \<open>get_ebb_flood\<close> and \<open>get_high_low\<close> return: a NumPy array copied
  from a handle, or the Python integer of the \<open>else\<close> branch.
\<close>

datatype ('e, 'h) py_value = EbbFloodArray "'e list" | HighLowArray "'h list" | PyInt int

text \<open>
  \<open>get_ebb_flood\<close>. \<open>&ebb_flood[0]\<close> is a bounds-checked index into the
  new array and raises \<open>IndexError\<close> when the table is empty.
\<close>

definition get_ebb_flood ::
  "('e, 'h) GetTimeValue \<Rightarrow> ('e, 'h) ShioTimeValue_c \<Rightarrow> Seconds list
     \<Rightarrow> (py_error + ('e, 'h) py_value) \<times> ('e, 'h) ShioTimeValue_c" where
  "get_ebb_flood G shio modelTime =
     (case get_time_value G shio modelTime of
        (Inl e, shio') \<Rightarrow> (Inl e, shio')
      | (Inr vels, shio') \<Rightarrow>
          if fStationType shio' = CHR ''C'' then
            (if fEbbFloodDataHdl shio' = [] then (Inl IndexError, shio')
             else (Inr (EbbFloodArray (fEbbFloodDataHdl shio')), shio'))
          else (Inr (PyInt 0), shio'))"

text \<open>
  \<open>get_high_low\<close>; the matching branch calls \<open>get_time_value\<close> a second
  time before it copies the table.
\<close>

definition get_high_low ::
  "('e, 'h) GetTimeValue \<Rightarrow> ('e, 'h) ShioTimeValue_c \<Rightarrow> Seconds list
     \<Rightarrow> (py_error + ('e, 'h) py_value) \<times> ('e, 'h) ShioTimeValue_c" where
  "get_high_low G shio modelTime =
     (case get_time_value G shio modelTime of
        (Inl e, shio') \<Rightarrow> (Inl e, shio')
      | (Inr vels, shio') \<Rightarrow>
          if fStationType shio' = CHR ''H'' then
            (case get_time_value G shio' modelTime of
               (Inl e, shio'') \<Rightarrow> (Inl e, shio'')
             | (Inr vels', shio'') \<Rightarrow>
                 if fHighLowDataHdl shio'' = [] then (Inl IndexError, shio'')
                 else (Inr (HighLowArray (fHighLowDataHdl shio'')), shio''))
          else (Inr (PyInt 0), shio'))"

section \<open>CyWindMover (cy_wind_mover.pyx)\<close>

text \<open>
  A time-series provider as a mover sees it: the result of its
  \<open>GetTimeValue\<close> at a model time, a status and a velocity record.
\<close>

type_synonym OSSMTimeValue_c = "Seconds \<Rightarrow> OSErr \<times> VelocityRec"

text \<open>
  The fields of \<open>WindMover_c\<close> that the wrapper reads or writes, on top of
  those of \<open>Mover_c\<close>. A value reaches a field already converted to the
  field's C type (the declarations are in \<open>movers.pxd\<close>, not among the
  sources): the two times are integers, the two scales reals.
\<close>

record WindMover_c = Mover_c +
  fIsConstantWind :: bool
  fConstantValue :: VelocityRec
  fSpeedScale :: real
  fAngleScale :: real
  timeDep :: "OSSMTimeValue_c option"

text \<open>\<open>__init__\<close>, on the object \<open>__cinit__\<close> allocated.\<close>

definition CyWindMover_init ::
  "'a WindMover_c_scheme \<Rightarrow> int \<Rightarrow> int \<Rightarrow> real \<Rightarrow> real \<Rightarrow> 'a WindMover_c_scheme" where
  "CyWindMover_init mover uncertain_duration uncertain_time_delay uncertain_speed_scale
       uncertain_angle_scale =
     mover\<lparr>fIsConstantWind := True,
           fConstantValue := (fConstantValue mover)\<lparr>u := 0, v := 0\<rparr>,
           fDuration := uncertain_duration,
           fUncertainStartTime := uncertain_time_delay,
           fSpeedScale := uncertain_speed_scale,
           fAngleScale := uncertain_angle_scale\<rparr>"

text \<open>The four properties: \<open>__get__\<close> reads the field, \<open>__set__\<close> assigns it.\<close>

definition uncertain_duration_get :: "'a WindMover_c_scheme \<Rightarrow> int" where
  "uncertain_duration_get mover = fDuration mover"

definition uncertain_duration_set :: "'a WindMover_c_scheme \<Rightarrow> int \<Rightarrow> 'a WindMover_c_scheme" where
  "uncertain_duration_set mover val = mover\<lparr>fDuration := val\<rparr>"

definition uncertain_time_delay_get :: "'a WindMover_c_scheme \<Rightarrow> int" where
  "uncertain_time_delay_get mover = fUncertainStartTime mover"

definition uncertain_time_delay_set :: "'a WindMover_c_scheme \<Rightarrow> int \<Rightarrow> 'a WindMover_c_scheme" where
  "uncertain_time_delay_set mover val = mover\<lparr>fUncertainStartTime := val\<rparr>"

definition uncertain_speed_scale_get :: "'a WindMover_c_scheme \<Rightarrow> real" where
  "uncertain_speed_scale_get mover = fSpeedScale mover"

definition uncertain_speed_scale_set :: "'a WindMover_c_scheme \<Rightarrow> real \<Rightarrow> 'a WindMover_c_scheme" where
  "uncertain_speed_scale_set mover val = mover\<lparr>fSpeedScale := val\<rparr>"

definition uncertain_angle_scale_get :: "'a WindMover_c_scheme \<Rightarrow> real" where
  "uncertain_angle_scale_get mover = fAngleScale mover"

definition uncertain_angle_scale_set :: "'a WindMover_c_scheme \<Rightarrow> real \<Rightarrow> 'a WindMover_c_scheme" where
  "uncertain_angle_scale_set mover val = mover\<lparr>fAngleScale := val\<rparr>"

definition set_constant_wind ::
  "'a WindMover_c_scheme \<Rightarrow> real \<Rightarrow> real \<Rightarrow> 'a WindMover_c_scheme" where
  "set_constant_wind mover windU windV =
     mover\<lparr>fConstantValue := (fConstantValue mover)\<lparr>u := windU, v := windV\<rparr>,
           fIsConstantWind := True\<rparr>"

text \<open>
  \<open>set_ossm\<close>: \<open>SetTimeDep\<close> stores the provider's pointer (as the inline
  \<open>SetTimeDep\<close> of \<open>CATSMover_c.h\<close> does), then the constant-wind flag
  is cleared. The method returns \<open>True\<close>.
\<close>

definition set_ossm ::
  "'a WindMover_c_scheme \<Rightarrow> OSSMTimeValue_c \<Rightarrow> bool \<times> 'a WindMover_c_scheme" where
  "set_ossm mover ossm = (True, mover\<lparr>timeDep := Some ossm, fIsConstantWind := False\<rparr>)"

text \<open>
  The C++ methods of \<open>WindMover_c\<close> are not among the sources; the wrapper's
  methods take them as parameters. \<open>PrepareForModelStep\<close> gets the time, the
  step length, the uncertainty flag, the number of sets and the set sizes
  (\<open>None\<close> for the NULL pointer); \<open>get_move\<close> gets the number of particles,
  the time, the step length and the four arrays, and hands back the \<open>delta\<close>
  array it wrote in place.
\<close>

type_synonym 'm PrepareForModelStep =
  "'m \<Rightarrow> Seconds \<Rightarrow> Seconds \<Rightarrow> bool \<Rightarrow> nat \<Rightarrow> nat list option \<Rightarrow> OSErr \<times> 'm"

type_synonym 'm get_move =
  "'m \<Rightarrow> nat \<Rightarrow> Seconds \<Rightarrow> Seconds \<Rightarrow> WorldPoint3D list \<Rightarrow> WorldPoint3D list \<Rightarrow> real list
     \<Rightarrow> LEStatus list \<Rightarrow> LEType \<Rightarrow> int \<Rightarrow> OSErr \<times> WorldPoint3D list \<times> 'm"

text \<open>
  \<open>prepare_for_model_step\<close>. With \<open>numSets = 0\<close> the step is prepared
  without uncertainty; otherwise \<open>&setSizes[0]\<close> is a bounds-checked index
  (an empty array raises \<open>IndexError\<close>). Any non-zero status raises
  \<open>OSError\<close>.
\<close>

definition prepare_for_model_step ::
  "'m PrepareForModelStep \<Rightarrow> 'm \<Rightarrow> Seconds \<Rightarrow> Seconds \<Rightarrow> nat \<Rightarrow> nat list
     \<Rightarrow> (py_error + unit) \<times> 'm" where
  "prepare_for_model_step PrepareForModelStep mover model_time step_len nSets sizes =
     (if nSets \<noteq> 0 \<and> sizes = [] then (Inl IndexError, mover)
      else
        (case (if nSets = 0 then PrepareForModelStep mover model_time step_len False 0 None
               else PrepareForModelStep mover model_time step_len True nSets (Some sizes)) of
           (err, mover') \<Rightarrow>
             if err \<noteq> 0 then (Inl OSError, mover') else (Inr (), mover')))"

text \<open>
  \<open>get_move\<close>. \<open>N\<close> is the length of \<open>ref_points\<close>; \<open>&a[0]\<close> on each of
  the four arrays is a bounds-checked index. Only the statuses 1 and 2 raise;
  with any other status the method returns normally (the new \<open>delta\<close>
  stands for the array modified in place).
\<close>

definition CyWindMover_get_move ::
  "'m get_move \<Rightarrow> 'm \<Rightarrow> Seconds \<Rightarrow> Seconds \<Rightarrow> WorldPoint3D list \<Rightarrow> WorldPoint3D list
     \<Rightarrow> real list \<Rightarrow> LEStatus list \<Rightarrow> LEType \<Rightarrow> int
     \<Rightarrow> (py_error + WorldPoint3D list) \<times> 'm" where
  "CyWindMover_get_move cpp mover model_time step_len ref_points delta windages LE_status
       spill_type spill_ID =
     (if ref_points = [] \<or> delta = [] \<or> windages = [] \<or> LE_status = []
      then (Inl IndexError, mover)
      else
        (case cpp mover (length ref_points) model_time step_len ref_points delta windages
                LE_status spill_type spill_ID of
           (err, delta', mover') \<Rightarrow>
             if err = 1 then (Inl ValueError, mover')
             else if err = 2 then (Inl ValueError, mover')
             else (Inr delta', mover')))"

text \<open>
  The wrapper's \<open>get_time_value\<close>: \<open>GetTimeValue\<close> of the mover on each
  model time, \<open>ValueError\<close> at the first non-zero status.
\<close>

fun CyWindMover_get_time_value ::
  "('m \<Rightarrow> Seconds \<Rightarrow> OSErr \<times> VelocityRec) \<Rightarrow> 'm \<Rightarrow> Seconds list
     \<Rightarrow> py_error + VelocityRec list" where
  "CyWindMover_get_time_value G mover [] = Inr []"
| "CyWindMover_get_time_value G mover (t # ts) =
     (case G mover t of
        (err, vel) \<Rightarrow>
          if err \<noteq> 0 then Inl ValueError
          else (case CyWindMover_get_time_value G mover ts of
                  Inl e \<Rightarrow> Inl e
                | Inr vels \<Rightarrow> Inr (vel # vels)))"

section \<open>The movers' C++ side, from the specification\<close>

text \<open>The failure taxonomy of the specification (section 7).\<close>

datatype error = DataUnavailable | InvalidArguments | ReferencePointUnresolvable

subsection \<open>Wind mover\<close>

text \<open>
  Modelled from the spec: the step state of \<open>WindMover_c\<close>, whose class
  declaration and methods are not among the sources. Sections 4.3 and 4.4:
  whether a step has been prepared, the uncertainty flag, the number of sets
  and their sizes given to \<open>PrepareForModelStep\<close>, the time of the run's
  first step, and per set the pair (current offset, last refresh time). Per
  section 3 an offset is "a random angle/speed offset pair": the angle first,
  the relative speed change second.
\<close>

type_synonym offset = "real \<times> real"

record WindMover_state = WindMover_c +
  fStepReady :: bool
  fUncertain :: bool
  fNumSets :: nat
  fSetSizes :: "nat list"
  fRunStart :: "Seconds option"
  fUncertainty :: "nat \<rightharpoonup> offset \<times> Seconds"

definition zeroVelocity :: VelocityRec where
  "zeroVelocity = \<lparr>u = 0, v = 0\<rparr>"

text \<open>
  Modelled from the spec: \<open>WindMover_c::PrepareForModelRun\<close> (section 4.4:
  "resets/clears all per-set uncertainty state").
\<close>

definition WindMover_c_PrepareForModelRun :: "WindMover_state \<Rightarrow> WindMover_state" where
  "WindMover_c_PrepareForModelRun mover =
     mover\<lparr>fStepReady := False, fRunStart := None, fUncertainty := Map.empty\<rparr>"

text \<open>
  Modelled from the spec: the refresh of one set's offset (section 4.3). A new
  offset is drawn when the set has no state yet or \<open>duration\<close> seconds have
  passed since its last refresh: "a random angle in a bounded range scaled by
  angleScale and a random speed delta scaled by speedScale". Before
  \<open>startDelay\<close> has elapsed since the run's start the offset is zero.
  \<open>draw\<close> is the random source: the raw angle and speed numbers it gives
  for a set at a time.
\<close>

definition refresh_offset ::
  "(nat \<Rightarrow> Seconds \<Rightarrow> real \<times> real) \<Rightarrow> WindMover_state \<Rightarrow> Seconds \<Rightarrow> Seconds \<Rightarrow> nat
     \<Rightarrow> offset \<times> Seconds" where
  "refresh_offset draw mover start modelTime k =
     (let fresh = (if modelTime - start < fUncertainStartTime mover then (0, 0)
                   else (fAngleScale mover * fst (draw k modelTime),
                         fSpeedScale mover * snd (draw k modelTime)),
                   modelTime)
      in case fUncertainty mover k of
           None \<Rightarrow> fresh
         | Some (off, refreshed) \<Rightarrow>
             if fDuration mover \<le> modelTime - refreshed then fresh else (off, refreshed))"

text \<open>
  Modelled from the spec: \<open>WindMover_c::PrepareForModelStep\<close> (sections 4.4
  and 7). A non-positive step length or a partition that does not have
  \<open>numSets\<close> sizes is \<open>InvalidArguments\<close> and leaves the state untouched.
  \<open>code\<close> gives the status number of each failure of the taxonomy (the
  numbers are not among the sources).
\<close>

definition WindMover_c_PrepareForModelStep ::
  "(error \<Rightarrow> OSErr) \<Rightarrow> (nat \<Rightarrow> Seconds \<Rightarrow> real \<times> real) \<Rightarrow> WindMover_state PrepareForModelStep"
  where
  "WindMover_c_PrepareForModelStep code draw mover modelTime stepLen unc nSets sizes =
     (if stepLen \<le> 0 \<or> (unc \<and> (case sizes of None \<Rightarrow> True | Some ss \<Rightarrow> length ss \<noteq> nSets))
      then (code InvalidArguments, mover)
      else
        (let start = (case fRunStart mover of None \<Rightarrow> modelTime | Some s \<Rightarrow> s) in
         (0, mover\<lparr>fStepReady := True, fUncertain := unc, fNumSets := nSets,
                   fSetSizes := (case sizes of None \<Rightarrow> [] | Some ss \<Rightarrow> ss),
                   fRunStart := Some start,
                   fUncertainty :=
                     (if unc
                      then (\<lambda>k. if k < nSets
                                then Some (refresh_offset draw mover start modelTime k)
                                else fUncertainty mover k)
                      else fUncertainty mover)\<rparr>)))"

text \<open>Modelled from the spec: \<open>WindMover_c::ModelStepIsDone\<close> (section 4.4).\<close>

definition WindMover_c_ModelStepIsDone :: "WindMover_state \<Rightarrow> WindMover_state" where
  "WindMover_c_ModelStepIsDone mover = mover\<lparr>fStepReady := False\<rparr>"

text \<open>
  Modelled from the spec: \<open>WindMover_c::GetTimeValue\<close>, the deterministic
  wind at a model time (section 4.5: "either a fixed (u, v) pair, or a sample
  from a Time Series Provider at modelTime if one has been attached"). The
  flag the wrapper sets decides between the two.
\<close>

definition WindMover_c_GetTimeValue ::
  "(error \<Rightarrow> OSErr) \<Rightarrow> 'a WindMover_c_scheme \<Rightarrow> Seconds \<Rightarrow> OSErr \<times> VelocityRec" where
  "WindMover_c_GetTimeValue code mover modelTime =
     (if fIsConstantWind mover then (0, fConstantValue mover)
      else (case timeDep mover of
              None \<Rightarrow> (code DataUnavailable, zeroVelocity)
            | Some ossm \<Rightarrow> ossm modelTime))"

text \<open>
  Modelled from the spec: the uncertainty set of a particle. \<open>setSizes\<close>
  partitions the particle array into contiguous groups (section 4.4); a
  particle past the last group has no set.
\<close>

fun set_index :: "nat list \<Rightarrow> nat \<Rightarrow> nat option" where
  "set_index [] i = None"
| "set_index (s # ss) i = (if i < s then Some 0 else map_option Suc (set_index ss (i - s)))"

text \<open>
  Modelled from the spec: the offset applied to particle \<open>i\<close> in the
  prepared step: zero when the step was prepared without uncertainty
  (section 4.4), else the current offset of the particle's set; \<open>None\<close>
  when the particle has no set or the set no state.
\<close>

definition particle_offset :: "WindMover_state \<Rightarrow> nat \<Rightarrow> offset option" where
  "particle_offset mover i =
     (if \<not> fUncertain mover then Some (0, 0)
      else (case set_index (fSetSizes mover) i of
              None \<Rightarrow> None
            | Some k \<Rightarrow> map_option fst (fUncertainty mover k)))"

text \<open>
  Modelled from the spec: the velocity an offset adds to the deterministic
  wind (section 4.3: the speed delta is "relative to the deterministic
  speed"). The wind turned by the angle and with its speed changed by the
  relative delta, less the wind itself; a zero offset adds nothing.
\<close>

definition uncertaintyOffset :: "VelocityRec \<Rightarrow> offset \<Rightarrow> VelocityRec" where
  "uncertaintyOffset wind off =
     \<lparr>u = (1 + snd off) * (u wind * cos (fst off) - v wind * sin (fst off)) - u wind,
      v = (1 + snd off) * (u wind * sin (fst off) + v wind * cos (fst off)) - v wind\<rparr>"

text \<open>
  Modelled from the spec: the displacement of one particle (section 4.5:
  "(deterministic wind vector + uncertainty offset for its set) x stepLen"),
  east-west in \<open>pLong\<close>, north-south in \<open>pLat\<close>, nothing in \<open>z\<close>.
\<close>

definition displacement :: "VelocityRec \<Rightarrow> offset \<Rightarrow> Seconds \<Rightarrow> WorldPoint3D" where
  "displacement wind off stepLen =
     \<lparr>p = \<lparr>pLong = (u wind + u (uncertaintyOffset wind off)) * of_int stepLen,
            pLat = (v wind + v (uncertaintyOffset wind off)) * of_int stepLen\<rparr>,
      z = 0\<rparr>"

definition zeroDelta :: WorldPoint3D where
  "zeroDelta = \<lparr>p = \<lparr>pLong = 0, pLat = 0\<rparr>, z = 0\<rparr>"

text \<open>
  Modelled from the spec: \<open>WindMover_c::get_move\<close>, the batch call behind
  the wrapper's \<open>get_move\<close>. Status 2 is the one the wrapper reports as an
  invalid spill type. Sections 4.4 and 8: \<open>InvalidArguments\<close> when no step
  has been prepared, when the wind cannot be sampled, or when a particle in
  the water has no uncertainty set. Otherwise entry \<open>i < n\<close> of \<open>delta\<close>
  becomes the displacement of particle \<open>i\<close> if it is in the water and zero
  if not (the wrapper: "movement is only on particles in water"). The mover
  is handed back unchanged (section 4.4: \<open>GetMove\<close> "does not change
  state"). The arrays hold at least \<open>n\<close> entries each. Status 1 (arrays not
  defined) does not arise: an array here is a list.
\<close>

definition WindMover_c_get_move :: "(error \<Rightarrow> OSErr) \<Rightarrow> WindMover_state get_move" where
  "WindMover_c_get_move code mover n model_time step_len ref delta windages LE_status
       spillType spill_ID =
     (if spillType \<noteq> FORECAST_LE \<and> spillType \<noteq> UNCERTAINTY_LE then (2, delta, mover)
      else if \<not> fStepReady mover then (code InvalidArguments, delta, mover)
      else
        (case WindMover_c_GetTimeValue code mover model_time of
           (err, wind) \<Rightarrow>
             if err \<noteq> 0 then (code InvalidArguments, delta, mover)
             else if \<exists>i \<in> set [0..<n].
                       LE_status ! i = OILSTAT_INWATER \<and> particle_offset mover i = None
             then (code InvalidArguments, delta, mover)
             else
               (0,
                map (\<lambda>i. if LE_status ! i = OILSTAT_INWATER
                          then displacement wind (the (particle_offset mover i)) step_len
                          else zeroDelta) [0..<n]
                  @ drop n delta,
                mover)))"

text \<open>
  The calls that change a wind mover between two moves: the wrapper's four
  property setters, \<open>set_constant_wind\<close>, \<open>set_ossm\<close> and the three
  lifecycle methods, the latter on the C++ methods above.
\<close>

datatype wind_op =
  Set_uncertain_duration int
| Set_uncertain_time_delay int
| Set_uncertain_speed_scale real
| Set_uncertain_angle_scale real
| Set_constant_wind real real
| Set_ossm OSSMTimeValue_c
| Prepare_for_model_run
| Prepare_for_model_step Seconds Seconds nat "nat list"
| Model_step_is_done

fun apply_op ::
  "(error \<Rightarrow> OSErr) \<Rightarrow> (nat \<Rightarrow> Seconds \<Rightarrow> real \<times> real) \<Rightarrow> WindMover_state \<Rightarrow> wind_op
     \<Rightarrow> WindMover_state" where
  "apply_op code draw mover (Set_uncertain_duration val) = uncertain_duration_set mover val"
| "apply_op code draw mover (Set_uncertain_time_delay val) = uncertain_time_delay_set mover val"
| "apply_op code draw mover (Set_uncertain_speed_scale val) = uncertain_speed_scale_set mover val"
| "apply_op code draw mover (Set_uncertain_angle_scale val) = uncertain_angle_scale_set mover val"
| "apply_op code draw mover (Set_constant_wind windU windV) = set_constant_wind mover windU windV"
| "apply_op code draw mover (Set_ossm ossm) = snd (set_ossm mover ossm)"
| "apply_op code draw mover Prepare_for_model_run = WindMover_c_PrepareForModelRun mover"
| "apply_op code draw mover (Prepare_for_model_step model_time step_len nSets sizes) =
     snd (prepare_for_model_step (WindMover_c_PrepareForModelStep code draw) mover
            model_time step_len nSets sizes)"
| "apply_op code draw mover Model_step_is_done = WindMover_c_ModelStepIsDone mover"

fun changes_wind_source :: "wind_op \<Rightarrow> bool" where
  "changes_wind_source (Set_constant_wind windU windV) = True"
| "changes_wind_source (Set_ossm ossm) = True"
| "changes_wind_source other = False"

subsection \<open>Pattern mover (CATSMover_c.h)\<close>

text \<open>
  Modelled from the spec: the velocity grid (section 4.2), of which the movers
  use \<open>bounds()\<close> and \<open>sampleAt(point)\<close>. \<open>cellValue\<close> is the
  interpolated vector at a point of the covered area; outside it the sample is
  the zero vector.
\<close>

record WorldRect =
  loLong :: real
  loLat :: real
  hiLong :: real
  hiLat :: real

record TGridVel =
  bounds :: WorldRect
  cellValue :: "WorldPoint \<Rightarrow> VelocityRec"

definition inside :: "WorldRect \<Rightarrow> WorldPoint \<Rightarrow> bool" where
  "inside r pt \<longleftrightarrow>
     loLong r \<le> pLong pt \<and> pLong pt \<le> hiLong r \<and> loLat r \<le> pLat pt \<and> pLat pt \<le> hiLat r"

definition sampleAt :: "TGridVel \<Rightarrow> WorldPoint \<Rightarrow> VelocityRec" where
  "sampleAt g pt = (if inside (bounds g) pt then cellValue g pt else zeroVelocity)"

text \<open>
  The scale type is a \<open>short\<close> in the header ("none, constant, or file");
  the specification names the three values none, constant and time-series.
\<close>

datatype ScaleType = ScaleNone | ScaleConstant | ScaleTimeSeries

text \<open>
  The data members of \<open>CATSMover_c\<close> that bear on the scale, as the header
  declares them; the provider of a pattern mover gives a scalar. The last
  field is modelled from the spec: the scale cached for the step (section
  4.6).
\<close>

record CATSMover_c =
  refP :: WorldPoint
  fGrid :: "TGridVel option"
  refZ :: int
  scaleType :: ScaleType
  scaleValue :: real
  refScale :: real
  bTimeFileActive :: bool
  bApplyLogProfile :: bool
  timeDep :: "(Seconds \<Rightarrow> OSErr \<times> real) option"
  fEddyDiffusion :: real
  fEddyV0 :: real
  fStepScale :: "real option"

text \<open>The inline members of the header.\<close>

definition SetRefPosition :: "CATSMover_c \<Rightarrow> WorldPoint \<Rightarrow> int \<Rightarrow> CATSMover_c" where
  "SetRefPosition mover pt depth = mover\<lparr>refP := pt, refZ := depth\<rparr>"

definition GetRefPosition :: "CATSMover_c \<Rightarrow> WorldPoint \<times> int" where
  "GetRefPosition mover = (refP mover, refZ mover)"

definition SetTimeDep :: "CATSMover_c \<Rightarrow> (Seconds \<Rightarrow> OSErr \<times> real) option \<Rightarrow> CATSMover_c" where
  "SetTimeDep mover newTimeDep = mover\<lparr>timeDep := newTimeDep\<rparr>"

definition GetTimeDep :: "CATSMover_c \<Rightarrow> (Seconds \<Rightarrow> OSErr \<times> real) option" where
  "GetTimeDep mover = timeDep mover"

definition speed :: "VelocityRec \<Rightarrow> real" where
  "speed w = sqrt ((u w)\<^sup>2 + (v w)\<^sup>2)"

text \<open>
  Modelled from the spec: \<open>CATSMover_c::ComputeVelocityScale\<close>, of which
  the sources have the declaration only. Section 4.6: with scaling active the
  scale is the target value over the grid's value at the reference point,
  times \<open>refScale\<close>, and is cached for the step; the target is the
  provider's value at the model time, or \<open>scaleValue\<close> for a constant scale
  (the header: "constant value to match at refP"). Failures (sections 4.6 and
  7): no grid or no provider is \<open>DataUnavailable\<close>; a reference point
  outside the grid's bounds, where the grid has no value, is
  \<open>ReferencePointUnresolvable\<close>, as is a grid value of length zero, which
  leaves no ratio to compute.
\<close>

definition ComputeVelocityScale :: "CATSMover_c \<Rightarrow> Seconds \<Rightarrow> error + CATSMover_c" where
  "ComputeVelocityScale mover model_time =
     (if scaleType mover = ScaleNone then Inr (mover\<lparr>fStepScale := Some 1\<rparr>)
      else
        (case fGrid mover of
           None \<Rightarrow> Inl DataUnavailable
         | Some g \<Rightarrow>
             if \<not> inside (bounds g) (refP mover) then Inl ReferencePointUnresolvable
             else
               (case (if scaleType mover = ScaleConstant then Some (0, scaleValue mover)
                      else map_option (\<lambda>ts. ts model_time) (timeDep mover)) of
                  None \<Rightarrow> Inl DataUnavailable
                | Some (err, target) \<Rightarrow>
                    if err \<noteq> 0 then Inl DataUnavailable
                    else if speed (sampleAt g (refP mover)) = 0
                    then Inl ReferencePointUnresolvable
                    else Inr (mover\<lparr>fStepScale :=
                                 Some (refScale mover * target
                                         / speed (sampleAt g (refP mover)))\<rparr>))))"

text \<open>
  Modelled from the spec: the pattern mover's \<open>PrepareForModelStep\<close>
  (section 4.6: the scale is computed "at the start of each step") and
  \<open>ModelStepIsDone\<close> (section 4.4: "clears any step-scoped caches, e.g. a
  cached scale factor"). A failed preparation gives the failure and no
  prepared mover.
\<close>

definition CATSMover_c_PrepareForModelStep ::
  "CATSMover_c \<Rightarrow> Seconds \<Rightarrow> Seconds \<Rightarrow> error + CATSMover_c" where
  "CATSMover_c_PrepareForModelStep mover model_time time_step =
     (if time_step \<le> 0 then Inl InvalidArguments
      else ComputeVelocityScale (mover\<lparr>fStepScale := None\<rparr>) model_time)"

definition CATSMover_c_ModelStepIsDone :: "CATSMover_c \<Rightarrow> CATSMover_c" where
  "CATSMover_c_ModelStepIsDone mover = mover\<lparr>fStepScale := None\<rparr>"

section \<open>Example values\<close>

text \<open>
  A wind mover as the wrapper constructs it with its default arguments, on a
  fresh object.
\<close>

definition newWindMover :: WindMover_state where
  "newWindMover =
     \<lparr>bActive = True, bOpen = False, fUncertainStartTime = 0, fDuration = 0,
      fTimeUncertaintyWasSet = 0,
      fIsConstantWind = False, fConstantValue = zeroVelocity, fSpeedScale = 0,
      fAngleScale = 0, timeDep = None,
      fStepReady = False, fUncertain = False, fNumSets = 0, fSetSizes = [],
      fRunStart = None, fUncertainty = Map.empty\<rparr>"

definition exampleWindMover :: WindMover_state where
  "exampleWindMover = CyWindMover_init newWindMover 10800 0 2 (4 / 10)"

definition exampleCode :: "error \<Rightarrow> OSErr" where
  "exampleCode e = - 1"

definition exampleDraw :: "nat \<Rightarrow> Seconds \<Rightarrow> real \<times> real" where
  "exampleDraw k t = (1 / 2, 1 / 4)"

definition otherDraw :: "nat \<Rightarrow> Seconds \<Rightarrow> real \<times> real" where
  "otherDraw k t = (0, 1)"

definition exampleOssm :: OSSMTimeValue_c where
  "exampleOssm t = (0, \<lparr>u = of_int t, v = 2\<rparr>)"

definition examplePoint :: WorldPoint3D where
  "examplePoint = \<lparr>p = \<lparr>pLong = 1, pLat = 2\<rparr>, z = 3\<rparr>"

text \<open>
  A height station with one entry in each derived table, a \<open>GetTimeValue\<close>
  that succeeds and leaves the tables as they are, and one that fails.
\<close>

definition exampleShio :: "(int, int) ShioTimeValue_c" where
  "exampleShio =
     \<lparr>daylight_savings_off = True, filePath = ''tide.txt'', fScaleFactor = 1,
      fYearDataPath = [], fStationName = ''Station'', fStationType = CHR ''H'',
      fStationLocation = \<lparr>pLong = 0, pLat = 0\<rparr>, fUserUnits = - 1,
      fEbbFloodDataHdl = [10], fHighLowDataHdl = [20]\<rparr>"

definition exampleGetTimeValue :: "(int, int) GetTimeValue" where
  "exampleGetTimeValue shio t = (0, zeroVelocity, fEbbFloodDataHdl shio, fHighLowDataHdl shio)"

definition failingGetTimeValue :: "(int, int) GetTimeValue" where
  "failingGetTimeValue shio t = (- 1, zeroVelocity, fEbbFloodDataHdl shio, fHighLowDataHdl shio)"

text \<open>
  A file system with two files, and a \<open>ReadTimeValues\<close> that reads
  \<open>tide.txt\<close> as a station of a given tag and fails on any other file.
\<close>

definition exampleExists :: "string \<Rightarrow> bool" where
  "exampleExists path \<longleftrightarrow> path = ''tide.txt'' \<or> path = ''bad.txt''"

definition exampleRead :: "char \<Rightarrow> (int, int) ReadTimeValues" where
  "exampleRead tag shio path =
     (if path = ''tide.txt'' then (0, shio\<lparr>filePath := path, fStationType := tag\<rparr>)
      else (- 1, shio))"

text \<open>
  A pattern mover on a grid over the unit square with the uniform vector
  (0, 2), scaled by a time series, with its reference point outside the grid.
\<close>

definition exampleGrid :: TGridVel where
  "exampleGrid =
     \<lparr>bounds = \<lparr>loLong = 0, loLat = 0, hiLong = 1, hiLat = 1\<rparr>,
      cellValue = (\<lambda>pt. \<lparr>u = 0, v = 2\<rparr>)\<rparr>"

definition exampleCATSMover :: CATSMover_c where
  "exampleCATSMover =
     \<lparr>refP = \<lparr>pLong = 5, pLat = 5\<rparr>, fGrid = Some exampleGrid, refZ = 0,
      scaleType = ScaleTimeSeries, scaleValue = 1, refScale = 1,
      bTimeFileActive = True, bApplyLogProfile = False,
      timeDep = Some (\<lambda>t. (0, 4)), fEddyDiffusion = 0, fEddyV0 = 0,
      fStepScale = None\<rparr>"

section \<open>Properties of the wrappers and of the base mover\<close>

text \<open>\<open>GetTimeValue\<close> writes the two tables only, so the station's tag
  is the same after \<open>get_time_value\<close> as before.\<close>

lemma get_time_value_station:
  "fStationType (snd (get_time_value G shio ts)) = fStationType shio"
proof (induction ts arbitrary: shio)
  case Nil
  show ?case by simp
next
  case (Cons t ts)
  obtain err vel ebb hl where g: "G shio t = (err, vel, ebb, hl)"
    by (cases "G shio t") auto
  let ?s = "shio\<lparr>fEbbFloodDataHdl := ebb, fHighLowDataHdl := hl\<rparr>"
  have ih: "fStationType (snd (get_time_value G ?s ts)) = fStationType shio"
    using Cons.IH [of ?s] by simp
  obtain r s' where r: "get_time_value G ?s ts = (r, s')"
    by (cases "get_time_value G ?s ts") auto
  with ih have "fStationType s' = fStationType shio" by simp
  with g r show ?case by (cases r) (simp_all add: Let_def)
qed

text \<open>
  C10. For every particle and all time arguments, \<open>Mover_c::GetMove\<close>
  returns a point whose latitude, longitude and \<open>z\<close> are those of the
  particle. The function is total and has no failure result.
\<close>

theorem Mover_c_GetMove_position:
  "pLat (p (Mover_c_GetMove start_time stop_time model_time timeStep setIndex leIndex theLE leType))
     = pLat (p theLE) \<and>
   pLong (p (Mover_c_GetMove start_time stop_time model_time timeStep setIndex leIndex theLE leType))
     = pLong (p theLE) \<and>
   z (Mover_c_GetMove start_time stop_time model_time timeStep setIndex leIndex theLE leType)
     = z theLE"
  by (simp add: Mover_c_GetMove_def)

text \<open>
  C5, as amended. None of the four property setters checks the range: the
  value given, negative or not, is stored in the field and the getter returns
  it.
\<close>

theorem accessors_store_any_value:
  "uncertain_duration_get (uncertain_duration_set mover d) = d \<and>
   uncertain_time_delay_get (uncertain_time_delay_set mover t) = t \<and>
   uncertain_speed_scale_get (uncertain_speed_scale_set mover s) = s \<and>
   uncertain_angle_scale_get (uncertain_angle_scale_set mover a) = a"
  by (simp add: uncertain_duration_get_def uncertain_duration_set_def
      uncertain_time_delay_get_def uncertain_time_delay_set_def
      uncertain_speed_scale_get_def uncertain_speed_scale_set_def
      uncertain_angle_scale_get_def uncertain_angle_scale_set_def)

text \<open>
  The claim as stated fails: a negative angle scale and a negative speed scale
  are accepted and read back.
\<close>

theorem negative_scale_counterexample:
  "uncertain_angle_scale_get (uncertain_angle_scale_set exampleWindMover (- 1)) = - 1 \<and>
   uncertain_speed_scale_get (uncertain_speed_scale_set exampleWindMover (- 2)) = - 2"
  by (simp add: uncertain_angle_scale_get_def uncertain_angle_scale_set_def
        uncertain_speed_scale_get_def uncertain_speed_scale_set_def)

text \<open>
  C2, as amended. When the station's tag does not match the table asked for
  (not \<open>'C'\<close> for ebb/flood, not \<open>'H'\<close> for high/low), the method first
  runs \<open>get_time_value\<close> on the model times; if that raises, the exception
  is the outcome, and otherwise the method returns the integer 0.
\<close>

theorem mismatched_table_request:
  "(fStationType shio \<noteq> CHR ''C'' \<longrightarrow>
      fst (get_ebb_flood G shio ts) =
        (case fst (get_time_value G shio ts) of Inl e \<Rightarrow> Inl e | Inr vels \<Rightarrow> Inr (PyInt 0))) \<and>
   (fStationType shio \<noteq> CHR ''H'' \<longrightarrow>
      fst (get_high_low G shio ts) =
        (case fst (get_time_value G shio ts) of Inl e \<Rightarrow> Inl e | Inr vels \<Rightarrow> Inr (PyInt 0)))"
proof -
  obtain r s' where r: "get_time_value G shio ts = (r, s')"
    by (cases "get_time_value G shio ts") auto
  then have "fStationType s' = fStationType shio"
    using get_time_value_station [of G shio ts] by simp
  with r show ?thesis
    by (cases r) (simp_all add: get_ebb_flood_def get_high_low_def)
qed

theorem mismatched_table_request_witness:
  "fStationType exampleShio \<noteq> CHR ''C'' \<and>
   fst (get_ebb_flood exampleGetTimeValue exampleShio [0]) = Inr (PyInt 0) \<and>
   fStationType (exampleShio\<lparr>fStationType := CHR ''C''\<rparr>) \<noteq> CHR ''H'' \<and>
   fst (get_high_low failingGetTimeValue (exampleShio\<lparr>fStationType := CHR ''C''\<rparr>) [0])
     = Inl ValueError"
  using mismatched_table_request [of exampleShio exampleGetTimeValue "[0]"]
    mismatched_table_request [of "exampleShio\<lparr>fStationType := CHR ''C''\<rparr>"
      failingGetTimeValue "[0]"]
  by (simp add: exampleShio_def exampleGetTimeValue_def failingGetTimeValue_def)

text \<open>
  The claim as stated fails: on a height station the ebb/flood request returns
  the integer 0, which is not an empty table, and it raises \<open>ValueError\<close>
  when \<open>GetTimeValue\<close> fails at the model time.
\<close>

theorem mismatched_table_counterexample:
  "fst (get_ebb_flood exampleGetTimeValue exampleShio [0]) = Inr (PyInt 0) \<and>
   fst (get_ebb_flood exampleGetTimeValue exampleShio [0]) \<noteq> Inr (EbbFloodArray []) \<and>
   fst (get_ebb_flood failingGetTimeValue exampleShio [0]) = Inl ValueError"
  by (simp add: get_ebb_flood_def exampleShio_def exampleGetTimeValue_def
        failingGetTimeValue_def)

text \<open>
  C6, as amended. The tag a constructed provider exposes through
  \<open>station_type\<close> is the character \<open>ReadTimeValues\<close> left in the object,
  unchanged and unrestricted (the property's documentation lists \<open>'C'\<close>,
  \<open>'H'\<close> and \<open>'P'\<close>).
\<close>

theorem station_type_is_loaded_tag:
  "CyShioTime_init path_exists normpath ReadTimeValues shio0 path dso scale_factor = Inr shio
   \<Longrightarrow> station_type shio =
         [fStationType (snd (ReadTimeValues (shio0\<lparr>daylight_savings_off := dso\<rparr>) (normpath path)))]"
  by (auto simp: CyShioTime_init_def station_type_def Let_def split: if_splits prod.splits)

theorem station_type_is_loaded_tag_witness:
  "CyShioTime_init exampleExists id (exampleRead (CHR ''P'')) exampleShio ''tide.txt'' True 1
     = Inr (exampleShio\<lparr>fStationType := CHR ''P''\<rparr>) \<and>
   station_type (exampleShio\<lparr>fStationType := CHR ''P''\<rparr>) = ''P''"
proof -
  have h: "CyShioTime_init exampleExists id (exampleRead (CHR ''P'')) exampleShio ''tide.txt'' True 1
     = Inr (exampleShio\<lparr>fStationType := CHR ''P''\<rparr>)"
    by (simp add: CyShioTime_init_def exampleExists_def exampleRead_def exampleShio_def)
  show ?thesis
    using h station_type_is_loaded_tag [OF h]
    by (simp add: exampleRead_def)
qed

text \<open>
  The claim as stated fails: a station file read with the tag \<open>'P'\<close>
  gives a provider whose \<open>station_type\<close> is neither \<open>'C'\<close> nor
  \<open>'H'\<close>.
\<close>

theorem station_type_counterexample:
  "CyShioTime_init exampleExists id (exampleRead (CHR ''P'')) exampleShio ''tide.txt'' True 1
     = Inr (exampleShio\<lparr>fStationType := CHR ''P''\<rparr>) \<and>
   station_type (exampleShio\<lparr>fStationType := CHR ''P''\<rparr>) = ''P'' \<and>
   ''P'' \<noteq> ''C'' \<and> ''P'' \<noteq> ''H''"
  by (simp add: CyShioTime_init_def exampleExists_def exampleRead_def exampleShio_def station_type_def)

text \<open>
  C8. Constructing the tidal provider fails when the file does not exist
  (\<open>IOError\<close>) or when \<open>ReadTimeValues\<close> reports that it could not be
  read (\<open>ValueError\<close>); otherwise it succeeds, with the object as read,
  undefined user units and the given scale factor.
\<close>

theorem CyShioTime_init_outcome:
  "(\<not> path_exists path \<longrightarrow>
      CyShioTime_init path_exists normpath ReadTimeValues shio0 path dso scale_factor
        = Inl IOError) \<and>
   (path_exists path \<and>
      fst (ReadTimeValues (shio0\<lparr>daylight_savings_off := dso\<rparr>) (normpath path)) \<noteq> 0 \<longrightarrow>
      CyShioTime_init path_exists normpath ReadTimeValues shio0 path dso scale_factor
        = Inl ValueError) \<and>
   (path_exists path \<and>
      fst (ReadTimeValues (shio0\<lparr>daylight_savings_off := dso\<rparr>) (normpath path)) = 0 \<longrightarrow>
      CyShioTime_init path_exists normpath ReadTimeValues shio0 path dso scale_factor
        = Inr ((snd (ReadTimeValues (shio0\<lparr>daylight_savings_off := dso\<rparr>) (normpath path)))
                 \<lparr>fUserUnits := - 1, fScaleFactor := scale_factor\<rparr>))"
  by (simp add: CyShioTime_init_def Let_def split: prod.splits)

theorem CyShioTime_init_outcome_witness:
  "\<not> exampleExists ''none.txt'' \<and>
   CyShioTime_init exampleExists id (exampleRead (CHR ''C'')) exampleShio ''none.txt'' True 1
     = Inl IOError \<and>
   exampleExists ''bad.txt'' \<and>
   CyShioTime_init exampleExists id (exampleRead (CHR ''C'')) exampleShio ''bad.txt'' True 1
     = Inl ValueError \<and>
   exampleExists ''tide.txt'' \<and>
   CyShioTime_init exampleExists id (exampleRead (CHR ''C'')) exampleShio ''tide.txt'' True 2
     = Inr (exampleShio\<lparr>fStationType := CHR ''C'', fScaleFactor := 2\<rparr>)"
  using CyShioTime_init_outcome [of exampleExists "''none.txt''" id "exampleRead (CHR ''C'')"
      exampleShio True 1]
    CyShioTime_init_outcome [of exampleExists "''bad.txt''" id "exampleRead (CHR ''C'')"
      exampleShio True 1]
    CyShioTime_init_outcome [of exampleExists "''tide.txt''" id "exampleRead (CHR ''C'')"
      exampleShio True 2]
  by (simp add: exampleExists_def exampleRead_def exampleShio_def)

section \<open>Properties of the movers as specified\<close>

text \<open>The batch move hands the mover back as it was.\<close>

lemma WindMover_c_get_move_mover:
  "snd (snd (WindMover_c_get_move code mover n model_time step_len ref delta windages
               LE_status spillType spill_ID)) = mover"
  by (simp add: WindMover_c_get_move_def split: prod.splits)

lemma CyWindMover_get_move_mover:
  "snd (CyWindMover_get_move (WindMover_c_get_move code) mover model_time step_len ref_points
          delta windages LE_status spill_type spill_ID) = mover"
proof -
  obtain err delta' mover' where r:
    "WindMover_c_get_move code mover (length ref_points) model_time step_len ref_points delta
       windages LE_status spill_type spill_ID = (err, delta', mover')"
    by (cases "WindMover_c_get_move code mover (length ref_points) model_time step_len
                 ref_points delta windages LE_status spill_type spill_ID") auto
  then have "mover' = mover"
    using WindMover_c_get_move_mover [of code mover "length ref_points" model_time step_len
        ref_points delta windages LE_status spill_type spill_ID] by simp
  with r show ?thesis by (simp add: CyWindMover_get_move_def)
qed

text \<open>Mapping over the indices of an array is mapping over the array.\<close>

lemma map_status:
  "map (\<lambda>i. f (xs ! i)) [0..<length xs] = map f xs"
proof -
  have "map (\<lambda>i. f (xs ! i)) [0..<length xs] = map f (map (\<lambda>i. xs ! i) [0..<length xs])"
    by simp
  then show ?thesis by (simp only: map_nth)
qed

text \<open>
  A step prepared with \<open>numSets = 0\<close> and a positive step length is ready,
  has uncertainty off and leaves the wind source as it was.
\<close>

lemma prepared_without_uncertainty:
  assumes "prepared = snd (prepare_for_model_step (WindMover_c_PrepareForModelStep code draw)
                             mover model_time step_len 0 sizes)"
    and "0 < step_len"
  shows "fStepReady prepared" and "\<not> fUncertain prepared"
    and "fIsConstantWind prepared = fIsConstantWind mover"
    and "fConstantValue prepared = fConstantValue mover"
    and "WindMover_c.timeDep prepared = WindMover_c.timeDep mover"
  using assms
  by (simp_all add: prepare_for_model_step_def WindMover_c_PrepareForModelStep_def Let_def)

text \<open>
  C1. A wind mover is set to the constant wind (1, 0) and a step is prepared
  without uncertainty sets. Then \<open>get_move\<close> with a step length of 3600
  seconds, on arrays of one length and a valid spill type, returns normally
  and the displacement of every particle in the water is (3600, 0), whatever
  its position and windage.
\<close>

theorem constant_wind_displacement:
  assumes "ref_points \<noteq> []"
    and "length delta = length ref_points"
    and "length windages = length ref_points"
    and "length LE_status = length ref_points"
    and "spill_type = FORECAST_LE \<or> spill_type = UNCERTAINTY_LE"
    and "prepared = snd (prepare_for_model_step (WindMover_c_PrepareForModelStep code draw)
                           (set_constant_wind mover 1 0) model_time 3600 0 sizes)"
  shows "CyWindMover_get_move (WindMover_c_get_move code) prepared model_time 3600 ref_points
           delta windages LE_status spill_type spill_ID
         = (Inr (map (\<lambda>s. if s = OILSTAT_INWATER
                            then \<lparr>p = \<lparr>pLong = 3600, pLat = 0\<rparr>, z = 0\<rparr>
                            else zeroDelta) LE_status),
            prepared)"
proof -
  have ready: "fStepReady prepared" and unc: "\<not> fUncertain prepared"
    and const: "fIsConstantWind prepared"
    and val: "fConstantValue prepared = \<lparr>u = 1, v = 0\<rparr>"
    using prepared_without_uncertainty [OF assms(6)]
    by (simp_all add: set_constant_wind_def)
  have wind: "WindMover_c_GetTimeValue code prepared model_time = (0, \<lparr>u = 1, v = 0\<rparr>)"
    using const val by (simp add: WindMover_c_GetTimeValue_def)
  have off: "particle_offset prepared i = Some (0, 0)" for i
    using unc by (simp add: particle_offset_def)
  have disp: "displacement \<lparr>u = 1, v = 0\<rparr> (0, 0) 3600
                = \<lparr>p = \<lparr>pLong = 3600, pLat = 0\<rparr>, z = 0\<rparr>"
    by (simp add: displacement_def uncertaintyOffset_def)
  have body: "(\<lambda>i. if LE_status ! i = OILSTAT_INWATER
                     then displacement \<lparr>u = 1, v = 0\<rparr> (the (particle_offset prepared i)) 3600
                     else zeroDelta)
              = (\<lambda>i. (\<lambda>s. if s = OILSTAT_INWATER
                             then \<lparr>p = \<lparr>pLong = 3600, pLat = 0\<rparr>, z = 0\<rparr>
                             else zeroDelta) (LE_status ! i))"
    by (rule ext) (simp add: off disp)
  have moved: "map (\<lambda>i. if LE_status ! i = OILSTAT_INWATER
                     then displacement \<lparr>u = 1, v = 0\<rparr> (the (particle_offset prepared i)) 3600
                     else zeroDelta) [0..<length ref_points] @ drop (length ref_points) delta
               = map (\<lambda>s. if s = OILSTAT_INWATER
                             then \<lparr>p = \<lparr>pLong = 3600, pLat = 0\<rparr>, z = 0\<rparr>
                             else zeroDelta) LE_status"
    unfolding body using assms(2,4) map_status [of _ LE_status] by simp
  have nobad: "\<not> (\<exists>i \<in> set [0..<length ref_points].
                        LE_status ! i = OILSTAT_INWATER \<and> particle_offset prepared i = None)"
    by (simp add: off)
  have valid: "\<not> (spill_type \<noteq> FORECAST_LE \<and> spill_type \<noteq> UNCERTAINTY_LE)"
    using assms(5) by auto
  have cpp: "WindMover_c_get_move code prepared (length ref_points) model_time 3600 ref_points
               delta windages LE_status spill_type spill_ID
             = (0, map (\<lambda>s. if s = OILSTAT_INWATER
                              then \<lparr>p = \<lparr>pLong = 3600, pLat = 0\<rparr>, z = 0\<rparr>
                              else zeroDelta) LE_status, prepared)"
    unfolding WindMover_c_get_move_def
    by (simp only: valid if_False ready not_True_eq_False wind prod.case nobad moved) simp
  from assms(1-4) have "delta \<noteq> []" "windages \<noteq> []" "LE_status \<noteq> []"
    by auto
  with assms(1) cpp show ?thesis
    by (simp add: CyWindMover_get_move_def)
qed

theorem constant_wind_displacement_witness:
  "[examplePoint, examplePoint] \<noteq> [] \<and>
   length [zeroDelta, examplePoint] = length [examplePoint, examplePoint] \<and>
   length [1, 1 :: real] = length [examplePoint, examplePoint] \<and>
   length [OILSTAT_INWATER, OILSTAT_other 0] = length [examplePoint, examplePoint] \<and>
   fst (CyWindMover_get_move (WindMover_c_get_move exampleCode)
          (snd (prepare_for_model_step (WindMover_c_PrepareForModelStep exampleCode exampleDraw)
                  (set_constant_wind exampleWindMover 1 0) 0 3600 0 []))
          0 3600 [examplePoint, examplePoint] [zeroDelta, examplePoint] [1, 1]
          [OILSTAT_INWATER, OILSTAT_other 0] FORECAST_LE 0)
     = Inr [\<lparr>p = \<lparr>pLong = 3600, pLat = 0\<rparr>, z = 0\<rparr>, zeroDelta]"
  using constant_wind_displacement [of "[examplePoint, examplePoint]"
      "[zeroDelta, examplePoint]" "[1, 1]" "[OILSTAT_INWATER, OILSTAT_other 0]" FORECAST_LE
      _ exampleCode exampleDraw exampleWindMover 0 "[]" 0, OF _ _ _ _ _ refl]
  by simp

text \<open>
  With both scales zero the refreshed offset does not depend on the random
  source, and neither does a step prepared without uncertainty sets.
\<close>

lemma prepare_independent_of_draw:
  assumes "(fSpeedScale mover = 0 \<and> fAngleScale mover = 0) \<or> nSets = 0"
  shows "prepare_for_model_step (WindMover_c_PrepareForModelStep code draw1) mover
           model_time step_len nSets sizes
         = prepare_for_model_step (WindMover_c_PrepareForModelStep code draw2) mover
             model_time step_len nSets sizes"
proof (cases "nSets = 0")
  case True
  then show ?thesis
    by (simp add: prepare_for_model_step_def WindMover_c_PrepareForModelStep_def Let_def)
next
  case False
  with assms have scales: "fSpeedScale mover = 0" "fAngleScale mover = 0"
    by simp_all
  have fresh: "refresh_offset draw mover start model_time k
                 = (case fUncertainty mover k of
                      None \<Rightarrow> ((0, 0), model_time)
                    | Some (off, refreshed) \<Rightarrow>
                        if fDuration mover \<le> model_time - refreshed
                        then ((0, 0), model_time) else (off, refreshed))" for draw start k
    by (simp add: refresh_offset_def scales Let_def split: option.splits)
  have "WindMover_c_PrepareForModelStep code draw1 mover model_time step_len True nSets
          (Some sizes)
        = WindMover_c_PrepareForModelStep code draw2 mover model_time step_len True nSets
            (Some sizes)"
    unfolding WindMover_c_PrepareForModelStep_def fresh by (rule refl)
  with False show ?thesis
    by (simp add: prepare_for_model_step_def)
qed

text \<open>
  C9. A mover has zero uncertainty configured: both scales are zero, or the
  step is prepared without uncertainty sets. Two runs of it (reset, one step
  prepared) on the same times, sets and particles, each with its own random
  source, give the same outcome of \<open>get_move\<close>, also when the call is
  repeated within a run.
\<close>

theorem get_move_reproducible:
  assumes "(fSpeedScale mover = 0 \<and> fAngleScale mover = 0) \<or> nSets = 0"
    and "length delta = length ref_points"
    and "length windages = length ref_points"
    and "length LE_status = length ref_points"
    and "run1 = snd (prepare_for_model_step (WindMover_c_PrepareForModelStep code draw1)
                       (WindMover_c_PrepareForModelRun mover) model_time step_len nSets sizes)"
    and "run2 = snd (prepare_for_model_step (WindMover_c_PrepareForModelStep code draw2)
                       (WindMover_c_PrepareForModelRun mover) model_time step_len nSets sizes)"
  shows "fst (CyWindMover_get_move (WindMover_c_get_move code) run1 model_time step_len
                ref_points delta windages LE_status spill_type spill_ID)
         = fst (CyWindMover_get_move (WindMover_c_get_move code) run2 model_time step_len
                  ref_points delta windages LE_status spill_type spill_ID) \<and>
         fst (CyWindMover_get_move (WindMover_c_get_move code)
                (snd (CyWindMover_get_move (WindMover_c_get_move code) run1 model_time
                        step_len ref_points delta windages LE_status spill_type spill_ID))
                model_time step_len ref_points delta windages LE_status spill_type spill_ID)
         = fst (CyWindMover_get_move (WindMover_c_get_move code) run2 model_time step_len
                  ref_points delta windages LE_status spill_type spill_ID)"
proof -
  have "(fSpeedScale (WindMover_c_PrepareForModelRun mover) = 0 \<and>
         fAngleScale (WindMover_c_PrepareForModelRun mover) = 0) \<or> nSets = 0"
    using assms(1) by (simp add: WindMover_c_PrepareForModelRun_def)
  from prepare_independent_of_draw [OF this, of code draw1 model_time step_len sizes draw2]
  have "run1 = run2"
    using assms(5,6) by simp
  then show ?thesis
    by (simp only: CyWindMover_get_move_mover simp_thms)
qed

lemma upt_two:
  "[0..<2] = [0, 1]"
  by (simp add: upt_rec)

theorem get_move_reproducible_witness:
  "fSpeedScale (uncertain_angle_scale_set
      (uncertain_speed_scale_set (set_constant_wind exampleWindMover 1 0) 0) 0) = 0 \<and>
   fAngleScale (uncertain_angle_scale_set
      (uncertain_speed_scale_set (set_constant_wind exampleWindMover 1 0) 0) 0) = 0 \<and>
   fst (CyWindMover_get_move (WindMover_c_get_move exampleCode)
          (snd (prepare_for_model_step (WindMover_c_PrepareForModelStep exampleCode exampleDraw)
                  (WindMover_c_PrepareForModelRun
                     (uncertain_angle_scale_set
                        (uncertain_speed_scale_set (set_constant_wind exampleWindMover 1 0) 0)
                        0))
                  0 3600 1 [2]))
          0 3600 [examplePoint, examplePoint] [zeroDelta, zeroDelta] [1, 1]
          [OILSTAT_INWATER, OILSTAT_INWATER] UNCERTAINTY_LE 0)
     = Inr [\<lparr>p = \<lparr>pLong = 3600, pLat = 0\<rparr>, z = 0\<rparr>,
            \<lparr>p = \<lparr>pLong = 3600, pLat = 0\<rparr>, z = 0\<rparr>] \<and>
   fst (CyWindMover_get_move (WindMover_c_get_move exampleCode)
          (snd (prepare_for_model_step (WindMover_c_PrepareForModelStep exampleCode otherDraw)
                  (WindMover_c_PrepareForModelRun
                     (uncertain_angle_scale_set
                        (uncertain_speed_scale_set (set_constant_wind exampleWindMover 1 0) 0)
                        0))
                  0 3600 1 [2]))
          0 3600 [examplePoint, examplePoint] [zeroDelta, zeroDelta] [1, 1]
          [OILSTAT_INWATER, OILSTAT_INWATER] UNCERTAINTY_LE 0)
     = Inr [\<lparr>p = \<lparr>pLong = 3600, pLat = 0\<rparr>, z = 0\<rparr>,
            \<lparr>p = \<lparr>pLong = 3600, pLat = 0\<rparr>, z = 0\<rparr>]"
proof -
  let ?m = "uncertain_angle_scale_set
              (uncertain_speed_scale_set (set_constant_wind exampleWindMover 1 0) 0) 0"
  let ?run1 = "snd (prepare_for_model_step
                      (WindMover_c_PrepareForModelStep exampleCode exampleDraw)
                      (WindMover_c_PrepareForModelRun ?m) 0 3600 1 [2])"
  have scales: "fSpeedScale ?m = 0" "fAngleScale ?m = 0"
    by (simp_all add: uncertain_angle_scale_set_def uncertain_speed_scale_set_def)
  have first: "fst (CyWindMover_get_move (WindMover_c_get_move exampleCode) ?run1
          0 3600 [examplePoint, examplePoint] [zeroDelta, zeroDelta] [1, 1]
          [OILSTAT_INWATER, OILSTAT_INWATER] UNCERTAINTY_LE 0)
     = Inr [\<lparr>p = \<lparr>pLong = 3600, pLat = 0\<rparr>, z = 0\<rparr>,
            \<lparr>p = \<lparr>pLong = 3600, pLat = 0\<rparr>, z = 0\<rparr>]"
    by (simp add: CyWindMover_get_move_def WindMover_c_get_move_def
          WindMover_c_GetTimeValue_def prepare_for_model_step_def
          WindMover_c_PrepareForModelStep_def WindMover_c_PrepareForModelRun_def
          refresh_offset_def particle_offset_def displacement_def uncertaintyOffset_def
          uncertain_angle_scale_set_def uncertain_speed_scale_set_def set_constant_wind_def
          exampleWindMover_def CyWindMover_init_def newWindMover_def exampleDraw_def
          exampleCode_def upt_two Let_def)
  show ?thesis
    using scales first
      get_move_reproducible [where mover = ?m and nSets = 1 and code = exampleCode
        and ?draw1.0 = exampleDraw and ?draw2.0 = otherDraw and model_time = 0
        and step_len = 3600 and sizes = "[2]"
        and ref_points = "[examplePoint, examplePoint]"
        and delta = "[zeroDelta, zeroDelta]" and windages = "[1, 1]"
        and LE_status = "[OILSTAT_INWATER, OILSTAT_INWATER]"
        and spill_type = UNCERTAINTY_LE and spill_ID = 0, OF _ _ _ _ refl refl]
    by simp
qed

text \<open>
  With a non-zero speed scale the outcome does depend on the random source:
  the zero draw moves the particle by (3600, 0), the draw (0, 1) by
  (10800, 0).
\<close>

lemma nonzero_scale_depends_on_draw:
  "fst (CyWindMover_get_move (WindMover_c_get_move exampleCode)
          (snd (prepare_for_model_step
                  (WindMover_c_PrepareForModelStep exampleCode (\<lambda>k t. (0, 0)))
                  (WindMover_c_PrepareForModelRun (set_constant_wind exampleWindMover 1 0))
                  0 3600 1 [1]))
          0 3600 [examplePoint] [zeroDelta] [1] [OILSTAT_INWATER] UNCERTAINTY_LE 0)
     = Inr [\<lparr>p = \<lparr>pLong = 3600, pLat = 0\<rparr>, z = 0\<rparr>] \<and>
   fst (CyWindMover_get_move (WindMover_c_get_move exampleCode)
          (snd (prepare_for_model_step (WindMover_c_PrepareForModelStep exampleCode otherDraw)
                  (WindMover_c_PrepareForModelRun (set_constant_wind exampleWindMover 1 0))
                  0 3600 1 [1]))
          0 3600 [examplePoint] [zeroDelta] [1] [OILSTAT_INWATER] UNCERTAINTY_LE 0)
     = Inr [\<lparr>p = \<lparr>pLong = 10800, pLat = 0\<rparr>, z = 0\<rparr>]"
  by (simp add: CyWindMover_get_move_def WindMover_c_get_move_def
        WindMover_c_GetTimeValue_def prepare_for_model_step_def
        WindMover_c_PrepareForModelStep_def WindMover_c_PrepareForModelRun_def
        refresh_offset_def particle_offset_def displacement_def uncertaintyOffset_def
        set_constant_wind_def exampleWindMover_def CyWindMover_init_def newWindMover_def
        otherDraw_def exampleCode_def Let_def)

text \<open>
  The setters and the lifecycle calls leave the wind source (the
  constant-wind flag and the attached provider) alone.
\<close>

lemma apply_op_keeps_source:
  assumes "\<not> changes_wind_source op"
  shows "fIsConstantWind (apply_op code draw mover op) = fIsConstantWind mover \<and>
         WindMover_c.timeDep (apply_op code draw mover op) = WindMover_c.timeDep mover"
  using assms
  by (cases op)
    (simp_all add: uncertain_duration_set_def uncertain_time_delay_set_def
      uncertain_speed_scale_set_def uncertain_angle_scale_set_def
      WindMover_c_PrepareForModelRun_def WindMover_c_ModelStepIsDone_def
      prepare_for_model_step_def WindMover_c_PrepareForModelStep_def Let_def)

lemma foldl_apply_op_keeps_source:
  assumes "\<forall>op \<in> set ops. \<not> changes_wind_source op"
  shows "fIsConstantWind (foldl (apply_op code draw) mover ops) = fIsConstantWind mover \<and>
         WindMover_c.timeDep (foldl (apply_op code draw) mover ops) = WindMover_c.timeDep mover"
  using assms
proof (induction ops arbitrary: mover)
  case Nil
  show ?case by simp
next
  case (Cons op ops)
  from Cons.prems have "\<not> changes_wind_source op"
    and rest: "\<forall>op \<in> set ops. \<not> changes_wind_source op"
    by simp_all
  then have "fIsConstantWind (apply_op code draw mover op) = fIsConstantWind mover \<and>
         WindMover_c.timeDep (apply_op code draw mover op) = WindMover_c.timeDep mover"
    using apply_op_keeps_source by blast
  with Cons.IH [OF rest, of "apply_op code draw mover op"] show ?case by simp
qed

text \<open>
  C7. After a provider is attached with \<open>set_ossm\<close>, also to a mover that
  had a constant wind set, and after any sequence of setter and lifecycle
  calls that contains neither \<open>set_constant_wind\<close> nor another
  \<open>set_ossm\<close>, the deterministic wind at a model time is the provider's
  sample at that time, not the stored constant; once \<open>set_constant_wind\<close>
  is called it is the new constant.
\<close>

theorem attached_provider_is_sampled:
  assumes "\<forall>op \<in> set ops. \<not> changes_wind_source op"
  shows "WindMover_c_GetTimeValue code
           (foldl (apply_op code draw) (snd (set_ossm (set_constant_wind mover windU windV) ossm))
              ops) model_time
         = ossm model_time \<and>
         WindMover_c_GetTimeValue code
           (set_constant_wind
              (foldl (apply_op code draw)
                 (snd (set_ossm (set_constant_wind mover windU windV) ossm)) ops)
              windU' windV') model_time
         = (0, \<lparr>u = windU', v = windV'\<rparr>)"
proof -
  let ?attached = "snd (set_ossm (set_constant_wind mover windU windV) ossm)"
  have "\<not> fIsConstantWind ?attached" and "WindMover_c.timeDep ?attached = Some ossm"
    by (simp_all add: set_ossm_def)
  with foldl_apply_op_keeps_source [OF assms, of code draw ?attached]
  have "\<not> fIsConstantWind (foldl (apply_op code draw) ?attached ops)"
    and "WindMover_c.timeDep (foldl (apply_op code draw) ?attached ops) = Some ossm"
    by simp_all
  then show ?thesis
    by (simp add: WindMover_c_GetTimeValue_def set_constant_wind_def)
qed

theorem attached_provider_is_sampled_witness:
  "\<not> changes_wind_source (Set_uncertain_duration 900) \<and>
   \<not> changes_wind_source Prepare_for_model_run \<and>
   \<not> changes_wind_source (Prepare_for_model_step 0 900 0 []) \<and>
   \<not> changes_wind_source Model_step_is_done \<and>
   WindMover_c_GetTimeValue exampleCode
     (foldl (apply_op exampleCode exampleDraw)
        (snd (set_ossm (set_constant_wind exampleWindMover 5 5) exampleOssm))
        [Set_uncertain_duration 900, Prepare_for_model_run,
         Prepare_for_model_step 0 900 0 [], Model_step_is_done]) 7
     = (0, \<lparr>u = 7, v = 2\<rparr>)"
proof -
  have h: "\<forall>op \<in> set [Set_uncertain_duration 900, Prepare_for_model_run,
                  Prepare_for_model_step 0 900 0 [], Model_step_is_done].
      \<not> changes_wind_source op"
    by simp
  show ?thesis
    using h attached_provider_is_sampled [OF h, of exampleCode exampleDraw exampleWindMover
        5 5 exampleOssm 7]
    by (simp add: exampleOssm_def)
qed

text \<open>
  C3. With a time-series scale configured and the reference point outside the
  bounds of the grid, \<open>ComputeVelocityScale\<close> fails with
  \<open>ReferencePointUnresolvable\<close>, and so does the preparation of the step:
  no mover with a cached scale comes out of it.
\<close>

theorem reference_point_outside_grid:
  assumes "scaleType mover = ScaleTimeSeries"
    and "fGrid mover = Some g"
    and "\<not> inside (bounds g) (refP mover)"
  shows "ComputeVelocityScale mover model_time = Inl ReferencePointUnresolvable \<and>
         (0 < time_step \<longrightarrow>
            CATSMover_c_PrepareForModelStep mover model_time time_step
              = Inl ReferencePointUnresolvable)"
  using assms
  by (simp add: ComputeVelocityScale_def CATSMover_c_PrepareForModelStep_def)

theorem reference_point_outside_grid_witness:
  "scaleType exampleCATSMover = ScaleTimeSeries \<and>
   fGrid exampleCATSMover = Some exampleGrid \<and>
   \<not> inside (bounds exampleGrid) (refP exampleCATSMover) \<and>
   ComputeVelocityScale exampleCATSMover 0 = Inl ReferencePointUnresolvable \<and>
   CATSMover_c_PrepareForModelStep exampleCATSMover 0 900 = Inl ReferencePointUnresolvable"
proof -
  have h1: "scaleType exampleCATSMover = ScaleTimeSeries"
    and h2: "fGrid exampleCATSMover = Some exampleGrid"
    and h3: "\<not> inside (bounds exampleGrid) (refP exampleCATSMover)"
    by (simp_all add: exampleCATSMover_def exampleGrid_def inside_def)
  show ?thesis
    using h1 h2 h3 reference_point_outside_grid [OF h1 h2 h3, of 0 900]
    by simp
qed






end
